theory Spec2Isabelle
  imports Main "HOL-Library.AList" "HOL-Library.Sublist"
begin

section \<open>Exceptions, effects and the trace of a run\<close>

text \<open>
  The three scripts act on the outside world only: they run subprocesses, copy files and
  write to the console. A run is modelled by the list of effects it performed, in order,
  together with its outcome: \<open>Inr\<close> for a normal return, \<open>Inl\<close> for the Python exception
  that left the function. Whether an external operation fails is not decided by the
  scripts, so it is a parameter: a function of the history so far and of the operation.
\<close>

datatype os_error = ENOENT | ENOTDIR | EISDIR | EEXIST | EACCES | ESAMEFILE

datatype exn =
    AssertionError
  | NameError string
  | KeyError string
  | ValueError string
  | RuntimeError string
  | OSError os_error
  | CalledProcessError "string list"

datatype json = JNull | JString string | JObject "(string \<times> json) list"

datatype event =
    Log string
  | Print string
  | CheckCall "string list" "string option"
  | CheckOutput "string list"
  | Mkdtemp string
  | Copytree string string
  | Copy2 string string
  | WriteText string string
  | JsonDump string json
  | Mkdir string
  | Move string string
  | UnpackArchive string string
  | Rmtree string
  | InstallTree string string

type_synonym trace = "event list"

type_synonym ('s, 'a) io = "'s \<Rightarrow> (exn + 'a) \<times> 's"

definition io_return :: "'a \<Rightarrow> ('s, 'a) io" where
  "io_return x = (\<lambda>tr. (Inr x, tr))"

definition raise :: "exn \<Rightarrow> ('s, 'a) io" where
  "raise e = (\<lambda>tr. (Inl e, tr))"

definition io_bind :: "('s, 'a) io \<Rightarrow> ('a \<Rightarrow> ('s, 'b) io) \<Rightarrow> ('s, 'b) io" where
  "io_bind m f = (\<lambda>tr. case m tr of (Inl e, tr1) \<Rightarrow> (Inl e, tr1) | (Inr x, tr1) \<Rightarrow> f x tr1)"

definition io_then :: "('s, unit) io \<Rightarrow> ('s, 'a) io \<Rightarrow> ('s, 'a) io" where
  "io_then m k = io_bind m (\<lambda>_. k)"

fun block :: "('s, unit) io list \<Rightarrow> ('s, unit) io" where
  "block [] = io_return ()"
| "block (m # ms) = io_then m (block ms)"

definition emit :: "event \<Rightarrow> (trace, unit) io" where
  "emit ev = (\<lambda>tr. (Inr (), tr @ [ev]))"

definition effect :: "(trace \<Rightarrow> event \<Rightarrow> exn option) \<Rightarrow> event \<Rightarrow> (trace, unit) io" where
  "effect fails ev =
     (\<lambda>tr. (case fails tr ev of None \<Rightarrow> Inr () | Some e \<Rightarrow> Inl e, tr @ [ev]))"

text \<open>Python's \<^verbatim>\<open>str\<close> of an integer, as the f-strings and \<^verbatim>\<open>format\<close> calls use it.\<close>

fun digits :: "nat \<Rightarrow> string" where
  "digits n = (if n < 10 then [''0123456789'' ! n]
               else digits (n div 10) @ [''0123456789'' ! (n mod 10)])"

declare digits.simps [simp del]

definition str_int :: "int \<Rightarrow> string" where
  "str_int i = (if i < 0 then CHR ''-'' # digits (nat (- i)) else digits (nat i))"

section \<open>verifier/setup\_cuda\_runtime\_headers.py\<close>

text \<open>
  The values the script reads from the imported \<^verbatim>\<open>cupy\<close> module and from \<^verbatim>\<open>sys\<close>, and the
  fate of the \<^verbatim>\<open>pip\<close> subprocess (\<^verbatim>\<open>check=True\<close> turns a non-zero exit into an exception).
\<close>

record cupy_env =
  is_hip :: bool
  nvrtc_getVersion :: "int \<times> int"
  sys_executable :: string
  subprocess_fails :: "trace \<Rightarrow> event \<Rightarrow> exn option"

text \<open>\<^verbatim>\<open>shlex.join\<close>: every argument quoted unless it consists of safe characters only.\<close>

definition shlex_safe :: "char \<Rightarrow> bool" where
  "shlex_safe c = (c \<in> set (''abcdefghijklmnopqrstuvwxyz'' @ ''ABCDEFGHIJKLMNOPQRSTUVWXYZ''
                              @ ''0123456789'' @ ''_@%+=:,./-''))"

definition shlex_quote :: "string \<Rightarrow> string" where
  "shlex_quote s =
     (if s = [] then [CHR 0x27, CHR 0x27]
      else if list_all shlex_safe s then s
      else [CHR 0x27]
           @ concat (map (\<lambda>c. if c = CHR 0x27
                               then [CHR 0x27, CHR 0x22, CHR 0x27, CHR 0x22, CHR 0x27]
                               else [c]) s)
           @ [CHR 0x27])"

fun join :: "string \<Rightarrow> string list \<Rightarrow> string" where
  "join sep [] = []"
| "join sep [x] = x"
| "join sep (x # y # ys) = x @ sep @ join sep (y # ys)"

definition shlex_join :: "string list \<Rightarrow> string" where
  "shlex_join xs = join '' '' (map shlex_quote xs)"

definition pip_cmdline :: "cupy_env \<Rightarrow> int \<Rightarrow> int \<Rightarrow> string list" where
  "pip_cmdline env major minor =
     [sys_executable env, ''-m'', ''pip'', ''install'', ''--user'',
      ''nvidia-cuda-runtime-cu'' @ str_int major @ ''=='' @ str_int major @ ''.''
        @ str_int minor @ ''.*'']"

definition install_headers :: "cupy_env \<Rightarrow> int \<Rightarrow> int \<Rightarrow> (trace, unit) io" where
  "install_headers env major minor =
     block [emit (Print (''Running: '' @ shlex_join (pip_cmdline env major minor))),
            effect (subprocess_fails env) (CheckCall (pip_cmdline env major minor) None)]"

definition runtime_headers_main :: "cupy_env \<Rightarrow> (trace, unit) io" where
  "runtime_headers_main env =
     (if is_hip env then io_return ()
      else (case nvrtc_getVersion env of (major, minor) \<Rightarrow>
        if major = 11 then io_return ()
        else if major = 12 then
          (if minor < 2 then io_return () else install_headers env major minor)
        else raise AssertionError))"

section \<open>builder/setup\_cuda\_opt\_lib.py\<close>

subsection \<open>The file system\<close>

text \<open>
  Source and destination of a merge are paths into one file system, and nothing in the
  script keeps one from lying inside the other. The file system is therefore a single
  store: an association list from paths (lists of components below the root \<open>[]\<close>) to
  entries, in the order in which the entries were created; a directory listing returns
  the children in that order. Only content and kind of an entry are kept: time stamps
  and permissions, which \<^verbatim>\<open>copy2\<close> carries over, are left out, and so are symbolic links.
  The \<^verbatim>\<open>print\<close> calls of this script write to the console only and are left out as well.
\<close>

type_synonym path = "string list"

datatype entry = File string | Directory

type_synonym filesystem = "(path \<times> entry) list"

definition is_file :: "filesystem \<Rightarrow> path \<Rightarrow> bool" where
  "is_file fs p = (case map_of fs p of Some (File c) \<Rightarrow> True | _ \<Rightarrow> False)"

definition is_dir :: "filesystem \<Rightarrow> path \<Rightarrow> bool" where
  "is_dir fs p = (map_of fs p = Some Directory)"

definition exists :: "filesystem \<Rightarrow> path \<Rightarrow> bool" where
  "exists fs p = (map_of fs p \<noteq> None)"

text \<open>The error of a system call on a path that does not resolve.\<close>

definition missing_errno :: "filesystem \<Rightarrow> path \<Rightarrow> os_error" where
  "missing_errno fs p = (if list_ex (is_file fs) (prefixes p) then ENOTDIR else ENOENT)"

definition listdir :: "filesystem \<Rightarrow> path \<Rightarrow> path list" where
  "listdir fs p = map fst (filter (\<lambda>(q, e). q \<noteq> [] \<and> butlast q = p) fs)"

definition iterdir :: "filesystem \<Rightarrow> path \<Rightarrow> exn + path list" where
  "iterdir fs p =
     (case map_of fs p of
        None \<Rightarrow> Inl (OSError (missing_errno fs p))
      | Some (File c) \<Rightarrow> Inl (OSError ENOTDIR)
      | Some Directory \<Rightarrow> Inr (listdir fs p))"

text \<open>\<^verbatim>\<open>Path.mkdir()\<close> with its defaults: the parent must be there, the path must not.\<close>

definition mkdir :: "path \<Rightarrow> (filesystem, unit) io" where
  "mkdir p fs =
     (if exists fs p then (Inl (OSError EEXIST), fs)
      else case map_of fs (butlast p) of
             Some Directory \<Rightarrow> (Inr (), fs @ [(p, Directory)])
           | Some (File c) \<Rightarrow> (Inl (OSError ENOTDIR), fs)
           | None \<Rightarrow> (Inl (OSError (missing_errno fs (butlast p))), fs))"

text \<open>
  \<^verbatim>\<open>shutil.copy2(src, dst)\<close>: a destination that is a directory stands for the file of
  the source's base name inside it; copying a file onto itself is refused; then the
  source is opened for reading and the target for writing.
\<close>

definition copy2_target :: "filesystem \<Rightarrow> path \<Rightarrow> path \<Rightarrow> path" where
  "copy2_target fs src dst = (if is_dir fs dst \<and> src \<noteq> [] then dst @ [last src] else dst)"

definition copy2 :: "path \<Rightarrow> path \<Rightarrow> (filesystem, unit) io" where
  "copy2 src dst fs =
     (let target = copy2_target fs src dst in
      if target = src \<and> exists fs src then (Inl (OSError ESAMEFILE), fs)
      else case map_of fs src of
             None \<Rightarrow> (Inl (OSError (missing_errno fs src)), fs)
           | Some Directory \<Rightarrow> (Inl (OSError EISDIR), fs)
           | Some (File c) \<Rightarrow>
               (case map_of fs target of
                  Some Directory \<Rightarrow> (Inl (OSError EISDIR), fs)
                | Some (File old) \<Rightarrow> (Inr (), AList.update target (File c) fs)
                | None \<Rightarrow>
                    (case map_of fs (butlast target) of
                       Some Directory \<Rightarrow> (Inr (), AList.update target (File c) fs)
                     | Some (File x) \<Rightarrow> (Inl (OSError ENOTDIR), fs)
                     | None \<Rightarrow> (Inl (OSError (missing_errno fs (butlast target))), fs))))"

subsection \<open>merge\_directory\<close>

text \<open>
  \<^verbatim>\<open>os.walk\<close> lists a directory when it reaches it, yields it, and descends into the
  subdirectories it listed, parents first; a directory that cannot be listed yields nothing.
  The loop body of \<^verbatim>\<open>merge_directory\<close> runs at every yield, so the listing of a
  subdirectory sees what the body has written before. When the destination lies inside
  the source the walk can find ever new directories, and the recursion need not end:
  the walk takes fuel, one unit per level, and returns \<open>None\<close> when it runs out.
\<close>

definition scandir :: "filesystem \<Rightarrow> path \<Rightarrow> (string list \<times> string list) option" where
  "scandir fs srcpath =
     (if is_dir fs srcpath
      then Some (map last (filter (is_dir fs) (listdir fs srcpath)),
                 map last (filter (\<lambda>q. \<not> is_dir fs q) (listdir fs srcpath)))
      else None)"

fun copy_files :: "path \<Rightarrow> path \<Rightarrow> string list \<Rightarrow> (filesystem, unit) io" where
  "copy_files srcpath destpath [] = io_return ()"
| "copy_files srcpath destpath (f # files) =
     io_then (copy2 (srcpath @ [f]) (destpath @ [f])) (copy_files srcpath destpath files)"

definition relative_to :: "path \<Rightarrow> path \<Rightarrow> path" where
  "relative_to p base = drop (length base) p"

definition merge_body :: "path \<Rightarrow> path \<Rightarrow> path \<Rightarrow> string list \<Rightarrow> (filesystem, unit) io" where
  "merge_body src_dir dst_dir srcpath files =
     (let destpath = dst_dir @ relative_to srcpath src_dir in
      io_then (\<lambda>fs. if \<not> exists fs destpath then mkdir destpath fs else (Inr (), fs))
              (copy_files srcpath destpath files))"

fun walk_merge ::
    "nat \<Rightarrow> path \<Rightarrow> path \<Rightarrow> path \<Rightarrow> filesystem \<Rightarrow> ((exn + unit) \<times> filesystem) option"
  and walk_dirs ::
    "nat \<Rightarrow> path \<Rightarrow> path \<Rightarrow> path \<Rightarrow> string list \<Rightarrow> filesystem
       \<Rightarrow> ((exn + unit) \<times> filesystem) option"
where
  "walk_merge 0 src_dir dst_dir srcpath fs = None"
| "walk_merge (Suc k) src_dir dst_dir srcpath fs =
     (case scandir fs srcpath of
        None \<Rightarrow> Some (Inr (), fs)
      | Some (dirs, nondirs) \<Rightarrow>
          (case merge_body src_dir dst_dir srcpath nondirs fs of
             (Inl e, fs1) \<Rightarrow> Some (Inl e, fs1)
           | (Inr u, fs1) \<Rightarrow> walk_dirs k src_dir dst_dir srcpath dirs fs1))"
| "walk_dirs k src_dir dst_dir srcpath [] fs = Some (Inr (), fs)"
| "walk_dirs k src_dir dst_dir srcpath (d # ds) fs =
     (case walk_merge k src_dir dst_dir (srcpath @ [d]) fs of
        None \<Rightarrow> None
      | Some (Inl e, fs1) \<Rightarrow> Some (Inl e, fs1)
      | Some (Inr u, fs1) \<Rightarrow> walk_dirs k src_dir dst_dir srcpath ds fs1)"

definition merge_directory ::
    "nat \<Rightarrow> path \<Rightarrow> path \<Rightarrow> filesystem \<Rightarrow> ((exn + unit) \<times> filesystem) option" where
  "merge_directory k src_dir dst_dir fs = walk_merge k src_dir dst_dir src_dir fs"

subsection \<open>\_child and \_install\_library\<close>

definition child :: "filesystem \<Rightarrow> path \<Rightarrow> exn + path" where
  "child fs p =
     (case iterdir fs p of
        Inl e \<Rightarrow> Inl e
      | Inr children \<Rightarrow> if length children = 1 then Inr (hd children) else Inl AssertionError)"

text \<open>
  The loop over the payload directory. The branch for an entry that is not a directory
  reads the name \<^verbatim>\<open>dst_name\<close>, which is bound nowhere (the variable assigned two lines
  above is \<^verbatim>\<open>dest_name\<close>): evaluating it raises \<^verbatim>\<open>NameError\<close> before anything is copied.
\<close>

fun install_children ::
    "nat \<Rightarrow> path \<Rightarrow> (string \<rightharpoonup> string) \<Rightarrow> path list \<Rightarrow> filesystem
       \<Rightarrow> ((exn + unit) \<times> filesystem) option" where
  "install_children k dst_dir install_map [] fs = Some (Inr (), fs)"
| "install_children k dst_dir install_map (c # cs) fs =
     (let dest_name = (case install_map (last c) of Some n \<Rightarrow> n | None \<Rightarrow> last c) in
      if is_dir fs c
      then (case merge_directory k c (dst_dir @ [dest_name]) fs of
              None \<Rightarrow> None
            | Some (Inl e, fs1) \<Rightarrow> Some (Inl e, fs1)
            | Some (Inr u, fs1) \<Rightarrow> install_children k dst_dir install_map cs fs1)
      else Some (Inl (NameError ''dst_name''), fs))"

definition install_library ::
    "nat \<Rightarrow> string \<Rightarrow> path \<Rightarrow> path \<Rightarrow> (string \<rightharpoonup> string) \<Rightarrow> filesystem
       \<Rightarrow> ((exn + unit) \<times> filesystem) option" where
  "install_library k name src_dir dst_dir install_map fs =
     (case child fs src_dir of
        Inl e \<Rightarrow> Some (Inl e, fs)
      | Inr cuda_version_dir \<Rightarrow>
          if \<not> exists fs (cuda_version_dir @ [name]) then Some (Inr (), fs)
          else (case child fs (cuda_version_dir @ [name]) of
                  Inl e \<Rightarrow> Some (Inl e, fs)
                | Inr lib_version_dir \<Rightarrow>
                    (case iterdir fs lib_version_dir of
                       Inl e \<Rightarrow> Some (Inl e, fs)
                     | Inr children \<Rightarrow>
                         install_children k dst_dir install_map children fs)))"

subsection \<open>main\<close>

text \<open>
  The directory names each library is installed under, per platform. Parsing of the
  command line is left out: \<^verbatim>\<open>--src\<close> and \<^verbatim>\<open>--dst\<close> arrive as paths.
\<close>

definition and_then ::
    "((exn + unit) \<times> filesystem) option \<Rightarrow> (filesystem \<Rightarrow> ((exn + unit) \<times> filesystem) option)
       \<Rightarrow> ((exn + unit) \<times> filesystem) option" where
  "and_then r f =
     (case r of None \<Rightarrow> None | Some (Inl e, fs1) \<Rightarrow> Some (Inl e, fs1) | Some (Inr u, fs1) \<Rightarrow> f fs1)"

definition opt_lib_main ::
    "string \<Rightarrow> nat \<Rightarrow> path \<Rightarrow> path \<Rightarrow> filesystem \<Rightarrow> ((exn + unit) \<times> filesystem) option" where
  "opt_lib_main sys_platform k src_dir dst_dir fs =
     (if sys_platform = ''linux'' then
        and_then (install_library k ''cutensor'' src_dir dst_dir
                    [''lib'' \<mapsto> ''lib64'', ''include'' \<mapsto> ''include''] fs)
          (\<lambda>fs1. and_then (install_library k ''nccl'' src_dir dst_dir
                    [''lib'' \<mapsto> ''lib64'', ''include'' \<mapsto> ''include''] fs1)
             (install_library k ''cudnn'' src_dir dst_dir
                    [''lib64'' \<mapsto> ''lib64'', ''include'' \<mapsto> ''include'']))
      else if sys_platform = ''win32'' then
        and_then (install_library k ''cutensor'' src_dir dst_dir
                    [''lib'' \<mapsto> ''bin'', ''include'' \<mapsto> ''include''] fs)
          (install_library k ''cudnn'' src_dir dst_dir
                    [''bin'' \<mapsto> ''bin'', ''lib'' \<mapsto> ''lib'', ''include'' \<mapsto> ''include''])
      else Some (Inl AssertionError, fs))"

section \<open>dist.py\<close>

subsection \<open>Static configuration and the host\<close>

text \<open>
  The tables of \<^verbatim>\<open>dist_config\<close> are not part of these sources and are taken as a
  parameter. A dictionary keyed by a version string is a map; the entries of one
  configuration are the fields of a record. The two templates that the code fills with
  \<^verbatim>\<open>format\<close> are functions of the value filled in.
\<close>

record nccl_config =
  nccl_type :: string
  nccl_files :: "string list"

record wheel_linux_config =
  wl_name :: string
  wl_kind :: string
  wl_image :: string
  wl_libs :: "string list"
  wl_includes :: "(string \<times> string) list"
  wl_nccl :: "nccl_config option"
  wl_verify_image :: "string \<Rightarrow> string"
  wl_verify_systems :: "string list"
  wl_verify_preloads :: "string list"

type_synonym cuda_runtime_version = "int \<times> int \<times> int"

record wheel_windows_config =
  ww_name :: string
  ww_libs :: "string list"
  ww_cudart_lib :: string
  ww_check_version :: "cuda_runtime_version \<Rightarrow> bool"

record sdist_config =
  sd_image :: string
  sd_nccl :: "nccl_config option"
  sd_verify_image :: "string \<Rightarrow> string"
  sd_verify_systems :: "string list"
  sd_verify_preloads :: "string list"

record dist_config =
  CYTHON_VERSION :: string
  SDIST_CONFIG :: sdist_config
  SDIST_LONG_DESCRIPTION :: string
  WHEEL_LINUX_CONFIGS :: "string \<rightharpoonup> wheel_linux_config"
  WHEEL_WINDOWS_CONFIGS :: "string \<rightharpoonup> wheel_windows_config"
  WHEEL_PYTHON_VERSIONS :: "string \<rightharpoonup> string list"
  WHEEL_LONG_DESCRIPTION :: "string \<Rightarrow> string"
  VERIFY_PYTHON_VERSIONS :: "string list"
  PYTHON_VERSIONS :: "string list"

text \<open>One record of the library installer's dump: the cuDNN version and its assets per platform.\<close>

record cudnn_asset =
  asset_url :: string
  asset_filename :: string

record cudnn_record =
  rec_cuda :: string
  rec_cudnn :: string
  rec_assets :: "string \<rightharpoonup> cudnn_asset"

text \<open>
  The host: what \<^verbatim>\<open>sys\<close> and \<^verbatim>\<open>os\<close> report, the functions of \<^verbatim>\<open>dist_utils\<close> (not part
  of these sources either), and the fate of every external operation as a function of
  the history of the run: whether it raises, which directory \<^verbatim>\<open>mkdtemp\<close> creates, what
  a subprocess prints and how that output parses. The renderings of a command tuple, of
  an asset dictionary and of an exception in a log line are left open.
\<close>

record host =
  sys_platform :: string
  sys_version_info :: "int \<times> int \<times> int"
  host_executable :: string
  getuid :: int
  getgid :: int
  getcwd :: string
  environ :: "string \<rightharpoonup> string"
  get_version_from_source_tree :: "string \<Rightarrow> exn + string"
  get_system_cuda_version :: "string \<Rightarrow> cuda_runtime_version option"
  find_file_in_path :: "string \<Rightarrow> string option"
  wheel_name :: "string \<Rightarrow> string \<Rightarrow> string \<Rightarrow> string \<Rightarrow> string"
  sdist_name :: "string \<Rightarrow> string \<Rightarrow> string"
  fails :: "trace \<Rightarrow> event \<Rightarrow> exn option"
  mkdtemp_result :: "trace \<Rightarrow> string \<Rightarrow> exn + string"
  check_output_result :: "trace \<Rightarrow> string list \<Rightarrow> exn + string"
  json_loads :: "string \<Rightarrow> exn + cudnn_record list"
  str_cmd :: "string list \<Rightarrow> string"
  str_assets :: "cudnn_asset \<Rightarrow> string"
  str_exn :: "exn \<Rightarrow> string"

subsection \<open>Control flow and small helpers\<close>

text \<open>
  \<^verbatim>\<open>try: body finally: final\<close>: the final block runs whatever the body did; an exception
  of the final block replaces the outcome of the body, otherwise that outcome stands.
\<close>

definition try_finally :: "('s, 'a) io \<Rightarrow> ('s, unit) io \<Rightarrow> ('s, 'a) io" where
  "try_finally body final =
     (\<lambda>s. case body s of (r, s1) \<Rightarrow>
             (case final s1 of (Inl e, s2) \<Rightarrow> (Inl e, s2) | (Inr u, s2) \<Rightarrow> (r, s2)))"

text \<open>\<^verbatim>\<open>try: m except OSError as e: handler\<close>; every other exception passes.\<close>

definition except_OSError :: "('s, unit) io \<Rightarrow> (exn \<Rightarrow> ('s, unit) io) \<Rightarrow> ('s, unit) io" where
  "except_OSError m handler =
     (\<lambda>s. case m s of
             (Inl (OSError x), s1) \<Rightarrow> handler (OSError x) s1
           | (r, s1) \<Rightarrow> (r, s1))"

definition lift :: "exn + 'a \<Rightarrow> ('s, 'a) io" where
  "lift r = (\<lambda>s. (r, s))"

definition fmt_opt :: "string option \<Rightarrow> string" where
  "fmt_opt x = (case x of None \<Rightarrow> ''None'' | Some s \<Rightarrow> s)"

definition str_version :: "int \<times> int \<times> int \<Rightarrow> string" where
  "str_version v = (case v of (a, b, c) \<Rightarrow>
     ''('' @ str_int a @ '', '' @ str_int b @ '', '' @ str_int c @ '')'')"

fun startswith :: "string \<Rightarrow> string \<Rightarrow> bool" where
  "startswith s p = (take (length p) s = p)"

fun contains :: "string \<Rightarrow> string \<Rightarrow> bool" where
  "contains sub [] = (sub = [])"
| "contains sub (c # cs) = (take (length sub) (c # cs) = sub \<or> contains sub cs)"

definition basename :: "string \<Rightarrow> string" where
  "basename p = rev (takeWhile (\<lambda>c. c \<noteq> CHR ''/'') (rev p))"

definition os_path_join :: "string \<Rightarrow> string \<Rightarrow> string" where
  "os_path_join a b =
     (if b \<noteq> [] \<and> hd b = CHR ''/'' then b
      else if a = [] \<or> last a = CHR ''/'' then a @ b
      else a @ ''/'' @ b)"

subsection \<open>Module-level functions\<close>

definition log :: "string \<Rightarrow> (trace, unit) io" where
  "log msg = emit (Log msg)"

definition run_command :: "host \<Rightarrow> string list \<Rightarrow> string option \<Rightarrow> (trace, unit) io" where
  "run_command h cmd cwd =
     io_then (log (''Running command: '' @ str_cmd h cmd))
             (effect (fails h) (CheckCall cmd cwd))"

definition run_command_output :: "host \<Rightarrow> string list \<Rightarrow> (trace, string) io" where
  "run_command_output h cmd =
     io_then (log (''Running command: '' @ str_cmd h cmd))
             (\<lambda>tr. (check_output_result h tr cmd, tr @ [CheckOutput cmd]))"

definition mkdtemp :: "host \<Rightarrow> string \<Rightarrow> (trace, string) io" where
  "mkdtemp h pfx =
     (\<lambda>tr. case mkdtemp_result h tr pfx of
              Inl e \<Rightarrow> (Inl e, tr)
            | Inr d \<Rightarrow> (Inr d, tr @ [Mkdtemp d]))"

definition extract_nccl_archive ::
    "host \<Rightarrow> nccl_config \<Rightarrow> string option \<Rightarrow> string \<Rightarrow> (trace, unit) io" where
  "extract_nccl_archive h nccl_config nccl_assets dest_dir =
     io_then (log (''Extracting NCCL assets from '' @ fmt_opt nccl_assets @ '' to '' @ dest_dir))
       (if nccl_type nccl_config = ''v1-deb'' then
          block (map (\<lambda>nccl_deb. run_command h
                        [''dpkg'', ''-x'', fmt_opt nccl_assets @ ''/'' @ nccl_deb, dest_dir] None)
                     (nccl_files nccl_config)
                 @ [effect (fails h) (Move (dest_dir @ ''/usr/lib/x86_64-linux-gnu'')
                                           (dest_dir @ ''/lib'')),
                    effect (fails h) (Move (dest_dir @ ''/usr/include'')
                                           (dest_dir @ ''/include''))])
        else if nccl_type nccl_config = ''v2-tar'' then
          block (map (\<lambda>nccl_tar. run_command h
                        [''tar'', ''-x'', ''-f'', fmt_opt nccl_assets @ ''/'' @ nccl_tar,
                         ''-C'', dest_dir, ''--strip'', ''1''] None)
                     (nccl_files nccl_config))
        else raise (RuntimeError (''unknown NCCL asset type: '' @ nccl_type nccl_config)))"

fun find_cudnn_record ::
    "string \<Rightarrow> string \<Rightarrow> cudnn_record list \<Rightarrow> (trace, string \<times> cudnn_asset) io" where
  "find_cudnn_record cuda_version platform [] =
     raise (RuntimeError (''CUDA '' @ cuda_version @ '' not supported by install_library tool''))"
| "find_cudnn_record cuda_version platform (record # records) =
     (if rec_cuda record = cuda_version
      then (case rec_assets record platform of
              None \<Rightarrow> raise (KeyError platform)
            | Some assets \<Rightarrow> io_return (rec_cudnn record, assets))
      else find_cudnn_record cuda_version platform records)"

definition get_cudnn_record ::
    "host \<Rightarrow> string \<Rightarrow> string \<Rightarrow> (trace, string \<times> cudnn_asset) io" where
  "get_cudnn_record h cuda_version platform =
     io_then (log (''Retrieving cuDNN records for CUDA '' @ cuda_version
                   @ '' ('' @ platform @ '')''))
       (io_bind (run_command_output h
                   [host_executable h, ''cupy/cupyx/tools/install_library.py'',
                    ''--library'', ''cudnn'', ''--cuda'', cuda_version, ''--action'', ''dump''])
          (\<lambda>out. io_bind (lift (json_loads h out))
                    (find_cudnn_record cuda_version platform)))"

text \<open>
  \<^verbatim>\<open>with tempfile.TemporaryDirectory() as tmpdir\<close>: the directory is made on entry and
  removed on every exit from the block.
\<close>

definition download_extract_cudnn_archive :: "host \<Rightarrow> string \<Rightarrow> string \<Rightarrow> (trace, unit) io" where
  "download_extract_cudnn_archive h url dest_dir =
     io_bind (mkdtemp h ''tmp'')
       (\<lambda>tmpdir.
          try_finally
            (let filepath = os_path_join tmpdir (basename url) in
             block [log (''Downloading '' @ url @ '' to '' @ filepath @ ''...''),
                    run_command h [''curl'', ''-L'', ''-o'', filepath, url] None,
                    log ''Extracting...'',
                    effect (fails h) (UnpackArchive filepath tmpdir),
                    log ''Moving to the destination directory...'',
                    effect (fails h) (Move (os_path_join tmpdir ''cuda'') dest_dir),
                    log ''Cleaning up...''])
            (effect (fails h) (Rmtree tmpdir)))"

text \<open>
  \<^verbatim>\<open>install_cudnn_windows\<close> walks the extracted tree and copies it into \<^verbatim>\<open>CUDA_PATH\<close>
  with the loop of \<^verbatim>\<open>merge_directory\<close> above; here its file operations are one effect.
\<close>

definition install_cudnn_windows :: "host \<Rightarrow> string \<Rightarrow> string \<Rightarrow> (trace, unit) io" where
  "install_cudnn_windows h cudnn_workdir cuda_path =
     block [log (''Installing cuDNN from '' @ cudnn_workdir @ '' to '' @ cuda_path),
            effect (fails h) (InstallTree cudnn_workdir cuda_path)]"

subsection \<open>Controller: containers\<close>

definition create_builder_linux ::
    "host \<Rightarrow> dist_config \<Rightarrow> string \<Rightarrow> string \<Rightarrow> string \<Rightarrow> (trace, unit) io" where
  "create_builder_linux h cfg image_tag base_image docker_ctx =
     block [log (''Building Docker image: '' @ image_tag),
            run_command h
              [''docker'', ''build'', ''--tag'', image_tag,
               ''--build-arg'', ''base_image='' @ base_image,
               ''--build-arg'', ''python_versions='' @ join '' '' (PYTHON_VERSIONS cfg),
               ''--build-arg'', ''cython_version='' @ CYTHON_VERSION cfg,
               docker_ctx] None]"

definition create_verifier_linux ::
    "host \<Rightarrow> dist_config \<Rightarrow> string \<Rightarrow> string \<Rightarrow> string \<Rightarrow> (trace, unit) io" where
  "create_verifier_linux h cfg image_tag base_image docker_ctx =
     io_bind
       (if contains ''rhel'' base_image \<or> contains ''centos'' base_image then
          io_then (log ''Using RHEL Dockerfile template'') (io_return ''rhel'')
        else if contains ''ubuntu'' base_image \<or> contains ''rocm'' base_image then
          io_then (log ''Using Debian Dockerfile template'') (io_return ''debian'')
        else raise (RuntimeError (''cannot detect OS from image name: '' @ base_image)))
       (\<lambda>template.
          block [effect (fails h) (Copy2 (docker_ctx @ ''/Dockerfile.'' @ template)
                                         (docker_ctx @ ''/Dockerfile'')),
                 log (''Building Docker image: '' @ image_tag),
                 run_command h
                   [''docker'', ''build'', ''--tag'', image_tag,
                    ''--build-arg'', ''base_image='' @ base_image,
                    ''--build-arg'',
                    ''python_versions='' @ join '' '' (VERIFY_PYTHON_VERSIONS cfg),
                    docker_ctx] None])"

definition docker_run :: "string \<Rightarrow> string list option" where
  "docker_run kind =
     (if kind = ''cuda'' then Some [''nvidia-docker'', ''run'']
      else if kind = ''rocm'' then
        Some [''docker'', ''run'', ''--device=/dev/kfd'', ''--device=/dev/dri'',
              ''--security-opt'', ''seccomp=unconfined'', ''--group-add'', ''video'',
              ''--env'', ''HCC_AMDGPU_TARGET'']
      else None)"

definition run_container ::
    "host \<Rightarrow> string \<Rightarrow> string \<Rightarrow> string \<Rightarrow> string list \<Rightarrow> (trace, unit) io" where
  "run_container h image_tag kind workdir agent_args =
     io_then (log (''Running docker container with image: '' @ image_tag
                   @ '' ('' @ kind @ '')''))
       (case docker_run kind of
          None \<Rightarrow> raise AssertionError
        | Some docker_run_args \<Rightarrow>
            run_command h
              (docker_run_args
               @ [''--rm'', ''--volume'', workdir @ '':/work'', ''--workdir'', ''/work'', image_tag]
               @ agent_args) None)"

subsection \<open>Controller.build\_linux\<close>

text \<open>
  The function is given in four pieces, in the order of the source: the resolution of
  the configuration, the arguments for the agent, the body of the \<^verbatim>\<open>try\<close> and the
  \<^verbatim>\<open>finally\<close> block. \<^verbatim>\<open>cudnn_version\<close> and \<^verbatim>\<open>cudnn_assets\<close> are set and left unset
  together and are one optional pair here.
\<close>

record build_plan =
  bp_action :: string
  bp_image_tag :: string
  bp_kind :: string
  bp_base_image :: string
  bp_package_name :: string
  bp_long_description :: string
  bp_nccl_config :: "nccl_config option"
  bp_cudnn :: "(string \<times> cudnn_asset) option"
  bp_asset_name :: string
  bp_asset_dest_name :: string

definition build_linux_plan ::
    "host \<Rightarrow> dist_config \<Rightarrow> string \<Rightarrow> string option \<Rightarrow> string \<Rightarrow> string \<Rightarrow> string
       \<Rightarrow> (trace, build_plan) io" where
  "build_linux_plan h cfg target cuda_version python_version source version =
     (if target = ''wheel-linux'' then
        (case cuda_version of
           None \<Rightarrow> raise AssertionError
         | Some cuda \<Rightarrow>
             io_then
               (log (''Starting wheel-linux build from '' @ source @ '' (version '' @ version
                     @ '', for CUDA '' @ cuda @ '' + Python '' @ python_version @ '')''))
               (case WHEEL_LINUX_CONFIGS cfg cuda of
                  None \<Rightarrow> raise (KeyError cuda)
                | Some c \<Rightarrow>
                    io_bind
                      (if wl_kind c = ''cuda'' then
                         io_bind (get_cudnn_record h cuda ''Linux'')
                           (\<lambda>cudnn. io_return (wl_nccl c, Some cudnn))
                       else if wl_kind c = ''rocm'' then io_return (None, None)
                       else raise AssertionError)
                      (\<lambda>(nccl_config, cudnn).
                         io_return
                           \<lparr>bp_action = ''bdist_wheel'',
                            bp_image_tag = ''cupy-builder-'' @ cuda,
                            bp_kind = wl_kind c,
                            bp_base_image = wl_image c,
                            bp_package_name = wl_name c,
                            bp_long_description = WHEEL_LONG_DESCRIPTION cfg cuda,
                            bp_nccl_config = nccl_config,
                            bp_cudnn = cudnn,
                            bp_asset_name =
                              wheel_name h (wl_name c) version python_version ''linux_x86_64'',
                            bp_asset_dest_name =
                              wheel_name h (wl_name c) version python_version
                                ''manylinux1_x86_64''\<rparr>)))
      else if target = ''sdist'' then
        (case cuda_version of
           Some cuda \<Rightarrow> raise AssertionError
         | None \<Rightarrow>
             io_then
               (log (''Starting sdist build from '' @ source @ '' (version '' @ version @ '')''))
               (io_return
                  \<lparr>bp_action = ''sdist'',
                   bp_image_tag = ''cupy-builder-sdist'',
                   bp_kind = ''cuda'',
                   bp_base_image = sd_image (SDIST_CONFIG cfg),
                   bp_package_name = ''cupy'',
                   bp_long_description = SDIST_LONG_DESCRIPTION cfg,
                   bp_nccl_config = None,
                   bp_cudnn = None,
                   bp_asset_name = sdist_name h ''cupy'' version,
                   bp_asset_dest_name = sdist_name h ''cupy'' version\<rparr>))
      else raise (RuntimeError ''unknown target''))"

definition build_linux_agent_args ::
    "host \<Rightarrow> dist_config \<Rightarrow> string \<Rightarrow> string option \<Rightarrow> string \<Rightarrow> build_plan
       \<Rightarrow> exn + string list" where
  "build_linux_agent_args h cfg target cuda_version python_version plan =
     (let agent_args = [''--action'', bp_action plan, ''--source'', ''cupy'',
                        ''--python'', python_version,
                        ''--chown'', str_int (getuid h) @ '':'' @ str_int (getgid h)];
          setup_args = [''--cupy-package-name'', bp_package_name plan,
                        ''--cupy-long-description'', ''../description.rst'']
      in if target = ''wheel-linux'' then
           (case WHEEL_PYTHON_VERSIONS cfg python_version of
              None \<Rightarrow> Inl (KeyError python_version)
            | Some requires \<Rightarrow>
                (case cuda_version of
                   None \<Rightarrow> Inl (KeyError ''None'')
                 | Some cuda \<Rightarrow>
                     (case WHEEL_LINUX_CONFIGS cfg cuda of
                        None \<Rightarrow> Inl (KeyError cuda)
                      | Some c \<Rightarrow>
                          Inr (agent_args
                               @ concat (map (\<lambda>req. [''--requires'', req]) requires)
                               @ setup_args
                               @ [''--cupy-no-rpath'', ''--cupy-wheel-metadata'', ''../_wheel.json'']
                               @ concat (map (\<lambda>lib. [''--cupy-wheel-lib'', lib]) (wl_libs c))
                               @ concat (map (\<lambda>(include_path, include_relpath).
                                                [''--cupy-wheel-include'',
                                                 include_path @ '':'' @ include_relpath])
                                             (wl_includes c))))))
         else if target = ''sdist'' then Inr (agent_args @ setup_args @ [''--cupy-no-cuda''])
         else Inr (agent_args @ setup_args))"

text \<open>The wheel metadata: the key \<^verbatim>\<open>cuda\<close> always, the key \<^verbatim>\<open>cudnn\<close> when cuDNN was staged.\<close>

definition wheel_metadata :: "string option \<Rightarrow> (string \<times> cudnn_asset) option \<Rightarrow> json" where
  "wheel_metadata cuda_version cudnn =
     JObject ((''cuda'', case cuda_version of None \<Rightarrow> JNull | Some cuda \<Rightarrow> JString cuda)
              # (case cudnn of
                   None \<Rightarrow> []
                 | Some (cudnn_version, cudnn_assets) \<Rightarrow>
                     [(''cudnn'', JObject [(''version'', JString cudnn_version),
                                          (''filename'', JString (asset_filename cudnn_assets))])]))"

definition build_linux_body ::
    "host \<Rightarrow> dist_config \<Rightarrow> string \<Rightarrow> string option \<Rightarrow> string option \<Rightarrow> string \<Rightarrow> string
       \<Rightarrow> build_plan \<Rightarrow> string list \<Rightarrow> string \<Rightarrow> (trace, unit) io" where
  "build_linux_body h cfg target nccl_assets cuda_version source output plan agent_args workdir =
     (let docker_ctx = workdir @ ''/builder'';
          nccl_workdir = docker_ctx @ ''/nccl'';
          cudnn_workdir = docker_ctx @ ''/cudnn'';
          asset_path = workdir @ ''/cupy/dist/'' @ bp_asset_name plan;
          output_path = output @ ''/'' @ bp_asset_dest_name plan
      in block
           [log (''Using working directory: '' @ workdir),
            log (''Copying source tree from: '' @ source),
            effect (fails h) (Copytree source (workdir @ ''/cupy'')),
            effect (fails h) (WriteText (workdir @ ''/description.rst'') (bp_long_description plan)),
            log (''Copying builder directory to: '' @ docker_ctx),
            effect (fails h) (Copytree ''builder/'' docker_ctx),
            log ''Creating nccl directory under builder directory'',
            effect (fails h) (Mkdir nccl_workdir),
            (case bp_nccl_config plan of
               Some nccl_config \<Rightarrow>
                 block [log ''Extracting NCCL archive'',
                        extract_nccl_archive h nccl_config nccl_assets nccl_workdir]
             | None \<Rightarrow> log ''NCCL is not installed for this build''),
            effect (fails h) (Mkdir cudnn_workdir),
            (case bp_cudnn plan of
               Some (cudnn_version, cudnn_assets) \<Rightarrow>
                 block [log (''cuDNN version: '' @ cudnn_version),
                        log (''cuDNN assets: '' @ str_assets h cudnn_assets),
                        log ''Creating cudnn directory under builder directory'',
                        download_extract_cudnn_archive h (asset_url cudnn_assets) cudnn_workdir]
             | None \<Rightarrow> log ''cuDNN is not installed for this build''),
            (if target = ''wheel-linux'' then
               block [log ''Writing wheel metadata'',
                      effect (fails h) (JsonDump (workdir @ ''/_wheel.json'')
                                                 (wheel_metadata cuda_version (bp_cudnn plan)))]
             else io_return ()),
            create_builder_linux h cfg (bp_image_tag plan) (bp_base_image plan) docker_ctx,
            log ''Starting build'',
            run_container h (bp_image_tag plan) (bp_kind plan) workdir agent_args,
            log ''Finished build'',
            log (''Copying asset from '' @ asset_path @ '' to '' @ output_path),
            effect (fails h) (Copy2 asset_path output_path)])"

definition remove_workdir :: "host \<Rightarrow> string \<Rightarrow> (trace, unit) io" where
  "remove_workdir h workdir =
     block [log (''Removing working directory: '' @ workdir),
            effect (fails h) (Rmtree workdir)]"

definition build_linux_setup ::
    "host \<Rightarrow> dist_config \<Rightarrow> string \<Rightarrow> string option \<Rightarrow> string \<Rightarrow> string
       \<Rightarrow> (trace, build_plan \<times> string list \<times> string) io" where
  "build_linux_setup h cfg target cuda_version python_version source =
     io_bind (lift (get_version_from_source_tree h source))
       (\<lambda>version.
          io_bind (build_linux_plan h cfg target cuda_version python_version source version)
            (\<lambda>plan.
               io_bind (lift (build_linux_agent_args h cfg target cuda_version python_version plan))
                 (\<lambda>agent_args.
                    io_bind (mkdtemp h ''cupy-dist-'')
                      (\<lambda>workdir. io_return (plan, agent_args, workdir)))))"

definition build_linux ::
    "host \<Rightarrow> dist_config \<Rightarrow> string \<Rightarrow> string option \<Rightarrow> string option \<Rightarrow> string \<Rightarrow> string
       \<Rightarrow> string \<Rightarrow> (trace, unit) io" where
  "build_linux h cfg target nccl_assets cuda_version python_version source output =
     io_bind (build_linux_setup h cfg target cuda_version python_version source)
       (\<lambda>(plan, agent_args, workdir).
          try_finally
            (build_linux_body h cfg target nccl_assets cuda_version source output
               plan agent_args workdir)
            (remove_workdir h workdir))"

subsection \<open>Controller.\_check\_windows\_environment and Controller.build\_windows\<close>

definition check_windows_environment ::
    "host \<Rightarrow> dist_config \<Rightarrow> string option \<Rightarrow> string \<Rightarrow> (trace, unit) io" where
  "check_windows_environment h cfg cuda_version python_version =
     (if \<not> startswith (sys_platform h) ''win32'' then
        raise (RuntimeError (''you are on non-Windows system: '' @ sys_platform h))
      else
        (let current_python_version =
               (case sys_version_info h of (a, b, c) \<Rightarrow> join ''.'' (map str_int [a, b, c]))
         in io_then
              (if python_version \<noteq> current_python_version then
                 log (''Note: Building wheel for Python '' @ python_version
                      @ '' using Python '' @ current_python_version)
               else io_return ())
              (case (case cuda_version of None \<Rightarrow> None
                     | Some cuda \<Rightarrow> WHEEL_WINDOWS_CONFIGS cfg cuda) of
                 None \<Rightarrow> raise (KeyError (fmt_opt cuda_version))
               | Some config \<Rightarrow>
                   (case get_system_cuda_version h (ww_cudart_lib config) of
                      None \<Rightarrow>
                        raise (RuntimeError ''Cannot build wheel without CUDA Runtime installed'')
                    | Some current_cuda_version \<Rightarrow>
                        if \<not> ww_check_version config current_cuda_version then
                          raise (RuntimeError
                                   (''Cannot build wheel for CUDA '' @ fmt_opt cuda_version
                                    @ '' using CUDA '' @ str_version current_cuda_version))
                        else io_return ()))))"

record windows_plan =
  wp_cuda :: string
  wp_long_description :: string
  wp_asset_name :: string
  wp_agent_args :: "string list"

fun find_wheel_libs :: "host \<Rightarrow> string list \<Rightarrow> exn + string list" where
  "find_wheel_libs h [] = Inr []"
| "find_wheel_libs h (lib # libs) =
     (case find_file_in_path h lib of
        None \<Rightarrow> Inl (RuntimeError (''Library '' @ lib @ '' could not be found in PATH''))
      | Some libpath \<Rightarrow>
          (case find_wheel_libs h libs of
             Inl e \<Rightarrow> Inl e
           | Inr rest \<Rightarrow> Inr ([''--cupy-wheel-lib'', libpath] @ rest)))"

definition build_windows_plan ::
    "host \<Rightarrow> dist_config \<Rightarrow> string \<Rightarrow> string option \<Rightarrow> string option \<Rightarrow> string \<Rightarrow> string
       \<Rightarrow> (trace, windows_plan) io" where
  "build_windows_plan h cfg target nccl_assets cuda_version python_version source =
     (if target \<noteq> ''wheel-win'' then raise (ValueError ''unknown target'')
      else if nccl_assets \<noteq> None then raise (RuntimeError ''NCCL not supported on Windows'')
      else
        io_bind (lift (get_version_from_source_tree h source))
          (\<lambda>version.
             io_then
               (log (''Starting wheel-win build from '' @ source @ '' (version '' @ version
                     @ '', for CUDA '' @ fmt_opt cuda_version @ '' + Python '' @ python_version
                     @ '')''))
               (case (case cuda_version of None \<Rightarrow> None
                      | Some cuda \<Rightarrow> WHEEL_WINDOWS_CONFIGS cfg cuda) of
                  None \<Rightarrow> raise (KeyError (fmt_opt cuda_version))
                | Some config \<Rightarrow>
                    (case WHEEL_PYTHON_VERSIONS cfg python_version of
                       None \<Rightarrow> raise (KeyError python_version)
                     | Some requires \<Rightarrow>
                         io_bind (lift (find_wheel_libs h (ww_libs config)))
                           (\<lambda>lib_args.
                              io_return
                                \<lparr>wp_cuda = fmt_opt cuda_version,
                                 wp_long_description =
                                   WHEEL_LONG_DESCRIPTION cfg (fmt_opt cuda_version),
                                 wp_asset_name =
                                   wheel_name h (ww_name config) version python_version
                                     ''win_amd64'',
                                 wp_agent_args =
                                   [''--action'', ''bdist_wheel'', ''--source'', ''cupy'']
                                   @ concat (map (\<lambda>req. [''--requires'', req]) requires)
                                   @ [''--cupy-package-name'', ww_name config,
                                      ''--cupy-long-description'', ''../description.rst'',
                                      ''--cupy-wheel-metadata'', ''../_wheel.json'']
                                   @ lib_args\<rparr>)))))"

definition build_windows_body ::
    "host \<Rightarrow> string \<Rightarrow> string \<Rightarrow> windows_plan \<Rightarrow> string \<Rightarrow> (trace, unit) io" where
  "build_windows_body h source output plan workdir =
     (let cudnn_workdir = workdir @ ''/cudnn'';
          asset_path = workdir @ ''/cupy/dist/'' @ wp_asset_name plan;
          output_path = output @ ''/'' @ wp_asset_name plan
      in io_then
           (block
              [log (''Using working directory: '' @ workdir),
               log (''Copying source tree from: '' @ source),
               effect (fails h) (Copytree source (workdir @ ''/cupy'')),
               effect (fails h) (WriteText (workdir @ ''/description.rst'')
                                           (wp_long_description plan))])
           (io_bind (get_cudnn_record h (wp_cuda plan) ''Windows'')
              (\<lambda>(cudnn_version, cudnn_assets).
                 io_then
                   (block
                      [log (''cuDNN version: '' @ cudnn_version),
                       log (''cuDNN assets: '' @ str_assets h cudnn_assets),
                       log ''Creating cudnn directory under work directory'',
                       download_extract_cudnn_archive h (asset_url cudnn_assets) cudnn_workdir])
                   (case environ h ''CUDA_PATH'' of
                      None \<Rightarrow> raise (KeyError ''CUDA_PATH'')
                    | Some cuda_path \<Rightarrow>
                        block
                          [log (''Installing cuDNN to '' @ cuda_path),
                           install_cudnn_windows h cudnn_workdir cuda_path,
                           log ''Writing wheel metadata'',
                           effect (fails h)
                             (JsonDump (workdir @ ''/_wheel.json'')
                                (wheel_metadata (Some (wp_cuda plan))
                                   (Some (cudnn_version, cudnn_assets)))),
                           log ''Starting build'',
                           run_command h
                             ([host_executable h, getcwd h @ ''/builder/agent.py'']
                              @ wp_agent_args plan)
                             (Some workdir),
                           log ''Finished build'',
                           log (''Copying asset from '' @ asset_path @ '' to '' @ output_path),
                           effect (fails h) (Copy2 asset_path output_path)]))))"

text \<open>
  The \<^verbatim>\<open>finally\<close> block of \<^verbatim>\<open>build_windows\<close>, the only one that catches the failure of
  the removal: the source notes that removing \<^verbatim>\<open>.git\<close> may fail with \<^verbatim>\<open>PermissionError\<close>
  on Windows.
\<close>

definition remove_workdir_windows :: "host \<Rightarrow> string \<Rightarrow> (trace, unit) io" where
  "remove_workdir_windows h workdir =
     block [log (''Removing working directory: '' @ workdir),
            except_OSError (effect (fails h) (Rmtree workdir))
              (\<lambda>e. log (''Failed to clean-up working directory: '' @ str_exn h e
                         @ [CHR 0x0A, CHR 0x0A]
                         @ ''Please remove the working directory manually: '' @ workdir))]"

definition build_windows_setup ::
    "host \<Rightarrow> dist_config \<Rightarrow> string \<Rightarrow> string option \<Rightarrow> string option \<Rightarrow> string \<Rightarrow> string
       \<Rightarrow> (trace, windows_plan \<times> string) io" where
  "build_windows_setup h cfg target nccl_assets cuda_version python_version source =
     io_then (check_windows_environment h cfg cuda_version python_version)
       (io_bind (build_windows_plan h cfg target nccl_assets cuda_version python_version source)
          (\<lambda>plan. io_bind (mkdtemp h ''cupy-dist-'') (\<lambda>workdir. io_return (plan, workdir))))"

definition build_windows ::
    "host \<Rightarrow> dist_config \<Rightarrow> string \<Rightarrow> string option \<Rightarrow> string option \<Rightarrow> string \<Rightarrow> string
       \<Rightarrow> string \<Rightarrow> (trace, unit) io" where
  "build_windows h cfg target nccl_assets cuda_version python_version source output =
     io_bind (build_windows_setup h cfg target nccl_assets cuda_version python_version source)
       (\<lambda>(plan, workdir).
          try_finally (build_windows_body h source output plan workdir)
                      (remove_workdir_windows h workdir))"

subsection \<open>Controller.verify\_linux and Controller.\_verify\_linux\<close>

record verify_plan =
  vp_image_tag :: string
  vp_kind :: string
  vp_base_image :: "string \<Rightarrow> string"
  vp_systems :: "string list"
  vp_preloads :: "string list"
  vp_nccl_config :: "nccl_config option"

definition verify_linux_plan ::
    "dist_config \<Rightarrow> string \<Rightarrow> string option \<Rightarrow> exn + verify_plan" where
  "verify_linux_plan cfg target cuda_version =
     (if target = ''sdist'' then
        (case cuda_version of
           Some cuda \<Rightarrow> Inl AssertionError
         | None \<Rightarrow>
             if length (sd_verify_preloads (SDIST_CONFIG cfg)) \<noteq> 0 then Inl AssertionError
             else Inr \<lparr>vp_image_tag = ''cupy-verifier-sdist'',
                       vp_kind = ''cuda'',
                       vp_base_image = sd_verify_image (SDIST_CONFIG cfg),
                       vp_systems = sd_verify_systems (SDIST_CONFIG cfg),
                       vp_preloads = sd_verify_preloads (SDIST_CONFIG cfg),
                       vp_nccl_config = sd_nccl (SDIST_CONFIG cfg)\<rparr>)
      else if target = ''wheel-linux'' then
        (case cuda_version of
           None \<Rightarrow> Inl AssertionError
         | Some cuda \<Rightarrow>
             (case WHEEL_LINUX_CONFIGS cfg cuda of
                None \<Rightarrow> Inl (KeyError cuda)
              | Some c \<Rightarrow>
                  Inr \<lparr>vp_image_tag = ''cupy-verifier-wheel-linux-'' @ cuda,
                        vp_kind = wl_kind c,
                        vp_base_image = wl_verify_image c,
                        vp_systems = wl_verify_systems c,
                        vp_preloads = wl_verify_preloads c,
                        vp_nccl_config = None\<rparr>))
      else Inl (RuntimeError ''unknown target''))"

definition verify_agent_args ::
    "host \<Rightarrow> string \<Rightarrow> string \<Rightarrow> string option \<Rightarrow> string list \<Rightarrow> string list" where
  "verify_agent_args h python_version dist cuda_version preloads =
     [''--python'', python_version, ''--dist'', basename dist,
      ''--chown'', str_int (getuid h) @ '':'' @ str_int (getgid h)]
     @ (if 0 < length preloads
        then [''--cuda'', fmt_opt cuda_version] @ concat (map (\<lambda>p. [''--preload'', p]) preloads)
        else [])
     @ [''tests'']"

text \<open>The body of the \<^verbatim>\<open>try\<close> of \<^verbatim>\<open>_verify_linux\<close>, and the function itself.\<close>

definition verify_linux_body ::
    "host \<Rightarrow> dist_config \<Rightarrow> string \<Rightarrow> string \<Rightarrow> string \<Rightarrow> string \<Rightarrow> string list
       \<Rightarrow> string option \<Rightarrow> nccl_config option \<Rightarrow> string list \<Rightarrow> string \<Rightarrow> (trace, unit) io" where
  "verify_linux_body h cfg image_tag base_image kind dist tests nccl_assets nccl_config
       agent_args workdir =
     (let tests_dir = workdir @ ''/tests'';
          docker_ctx = workdir @ ''/verifier'';
          nccl_workdir = docker_ctx @ ''/nccl''
      in block
           ([log (''Using working directory: '' @ workdir),
             log (''Copying distribution from: '' @ dist),
             effect (fails h) (Copy2 dist (workdir @ ''/'' @ basename dist)),
             effect (fails h) (Mkdir tests_dir)]
            @ map (\<lambda>test. block [log (''Copying tests from: '' @ test),
                                  effect (fails h)
                                    (Copytree test (tests_dir @ ''/'' @ basename test))])
                  tests
            @ [log (''Copying verifier directory to: '' @ docker_ctx),
               effect (fails h) (Copytree ''verifier/'' docker_ctx),
               log ''Creating nccl directory under verifier directory'',
               effect (fails h) (Mkdir nccl_workdir),
               (case nccl_config of
                  Some nccl \<Rightarrow>
                    block [log ''Extracting NCCL archive'',
                           extract_nccl_archive h nccl nccl_assets nccl_workdir]
                | None \<Rightarrow> log ''NCCL is not installed for this verification''),
               create_verifier_linux h cfg image_tag base_image docker_ctx,
               log ''Starting verification'',
               run_container h image_tag kind workdir agent_args,
               log ''Finished verification'']))"

definition verify_linux_system ::
    "host \<Rightarrow> dist_config \<Rightarrow> string \<Rightarrow> string \<Rightarrow> string \<Rightarrow> string \<Rightarrow> string list \<Rightarrow> string
       \<Rightarrow> string option \<Rightarrow> nccl_config option \<Rightarrow> string option \<Rightarrow> string list
       \<Rightarrow> (trace, unit) io" where
  "verify_linux_system h cfg image_tag base_image kind dist tests python_version
       nccl_assets nccl_config cuda_version preloads =
     io_bind (mkdtemp h ''cupy-dist-'')
       (\<lambda>workdir.
          try_finally
            (verify_linux_body h cfg image_tag base_image kind dist tests nccl_assets nccl_config
               (verify_agent_args h python_version dist cuda_version preloads) workdir)
            (remove_workdir h workdir))"

text \<open>The loop over the verification systems: an exception leaves the loop and the function.\<close>

fun verify_linux_systems ::
    "host \<Rightarrow> dist_config \<Rightarrow> verify_plan \<Rightarrow> string option \<Rightarrow> string option \<Rightarrow> string
       \<Rightarrow> string \<Rightarrow> string list \<Rightarrow> string list \<Rightarrow> (trace, unit) io" where
  "verify_linux_systems h cfg plan nccl_assets cuda_version python_version dist tests [] =
     io_return ()"
| "verify_linux_systems h cfg plan nccl_assets cuda_version python_version dist tests
       (system # systems) =
     io_then
       (io_then
          (log (''Starting verification for '' @ dist @ '' on '' @ vp_base_image plan system
                @ '' with Python '' @ python_version))
          (verify_linux_system h cfg (vp_image_tag plan @ ''-'' @ system)
             (vp_base_image plan system) (vp_kind plan) dist tests python_version
             nccl_assets (vp_nccl_config plan) cuda_version (vp_preloads plan)))
       (verify_linux_systems h cfg plan nccl_assets cuda_version python_version dist tests systems)"

definition verify_linux ::
    "host \<Rightarrow> dist_config \<Rightarrow> string \<Rightarrow> string option \<Rightarrow> string option \<Rightarrow> string \<Rightarrow> string
       \<Rightarrow> string list \<Rightarrow> (trace, unit) io" where
  "verify_linux h cfg target nccl_assets cuda_version python_version dist tests =
     io_bind (lift (verify_linux_plan cfg target cuda_version))
       (\<lambda>plan. verify_linux_systems h cfg plan nccl_assets cuda_version python_version dist tests
                  (vp_systems plan))"

subsection \<open>Controller.verify\_windows\<close>

definition verify_windows_body ::
    "host \<Rightarrow> string \<Rightarrow> string list \<Rightarrow> string \<Rightarrow> (trace, unit) io" where
  "verify_windows_body h dist tests workdir =
     (let tests_dir = workdir @ ''/tests'' in
      block
        ([log (''Using working directory: '' @ workdir),
          log (''Copying distribution from: '' @ dist),
          effect (fails h) (Copy2 dist (workdir @ ''/'' @ basename dist)),
          effect (fails h) (Mkdir tests_dir)]
         @ map (\<lambda>test. block [log (''Copying tests from: '' @ test),
                               effect (fails h)
                                 (Copytree test (tests_dir @ ''/'' @ basename test))])
               tests
         @ [log ''Starting verification'',
            run_command h
              [host_executable h, getcwd h @ ''/verifier/agent.py'', ''--dist'', dist, ''tests'']
              (Some workdir),
            log ''Finished verification'']))"

definition verify_windows_setup ::
    "host \<Rightarrow> dist_config \<Rightarrow> string \<Rightarrow> string option \<Rightarrow> string option \<Rightarrow> string \<Rightarrow> string
       \<Rightarrow> (trace, string) io" where
  "verify_windows_setup h cfg target nccl_assets cuda_version python_version dist =
     io_then (check_windows_environment h cfg cuda_version python_version)
       (if target \<noteq> ''wheel-win'' then raise (ValueError ''unknown target'')
        else if nccl_assets \<noteq> None then raise (RuntimeError ''NCCL not supported on Windows'')
        else io_then (log (''Starting verification for '' @ dist @ '' with Python ''
                           @ python_version))
                     (mkdtemp h ''cupy-dist-''))"

definition verify_windows ::
    "host \<Rightarrow> dist_config \<Rightarrow> string \<Rightarrow> string option \<Rightarrow> string option \<Rightarrow> string \<Rightarrow> string
       \<Rightarrow> string list \<Rightarrow> (trace, unit) io" where
  "verify_windows h cfg target nccl_assets cuda_version python_version dist tests =
     io_bind (verify_windows_setup h cfg target nccl_assets cuda_version python_version dist)
       (\<lambda>workdir. try_finally (verify_windows_body h dist tests workdir)
                               (remove_workdir h workdir))"

subsection \<open>Controller.main\<close>

text \<open>
  The parsed command line, with the assertions of \<^verbatim>\<open>parse_args\<close> on it; the choices
  that \<^verbatim>\<open>argparse\<close> enforces itself are taken for granted.
\<close>

record args =
  arg_action :: string
  arg_target :: string
  arg_nccl_assets :: "string option"
  arg_cuda :: "string option"
  arg_python :: string
  arg_source :: "string option"
  arg_output :: string
  arg_dist :: "string option"
  arg_test :: "string list"

definition truthy :: "string option \<Rightarrow> bool" where
  "truthy x = (case x of None \<Rightarrow> False | Some s \<Rightarrow> s \<noteq> [])"

definition controller_main :: "host \<Rightarrow> dist_config \<Rightarrow> args \<Rightarrow> (trace, unit) io" where
  "controller_main h cfg a =
     (if arg_action a = ''build'' then
        (if \<not> truthy (arg_source a) \<or> arg_output a = [] then raise AssertionError
         else if arg_target a = ''wheel-win'' then
           build_windows h cfg (arg_target a) (arg_nccl_assets a) (arg_cuda a) (arg_python a)
             (fmt_opt (arg_source a)) (arg_output a)
         else
           build_linux h cfg (arg_target a) (arg_nccl_assets a) (arg_cuda a) (arg_python a)
             (fmt_opt (arg_source a)) (arg_output a))
      else if arg_action a = ''verify'' then
        (if \<not> truthy (arg_dist a) \<or> arg_test a = [] then raise AssertionError
         else if arg_target a = ''wheel-win'' then
           verify_windows h cfg (arg_target a) (arg_nccl_assets a) (arg_cuda a) (arg_python a)
             (fmt_opt (arg_dist a)) (arg_test a)
         else
           verify_linux h cfg (arg_target a) (arg_nccl_assets a) (arg_cuda a) (arg_python a)
             (fmt_opt (arg_dist a)) (arg_test a))
      else io_return ())"

section \<open>Notions used in the proofs\<close>

text \<open>
  \<open>grows P fs fs'\<close>: the file system \<open>fs'\<close> comes from \<open>fs\<close> by creating or rewriting
  entries at paths that satisfy \<open>P\<close> only; no entry has gone or changed its kind, and the
  entries at other paths keep their place in the store.
\<close>

definition grows :: "(path \<Rightarrow> bool) \<Rightarrow> filesystem \<Rightarrow> filesystem \<Rightarrow> bool" where
  "grows P fs fs' \<longleftrightarrow>
     (\<forall>p. \<not> P p \<longrightarrow> map_of fs' p = map_of fs p) \<and>
     (\<forall>p. is_dir fs p \<longrightarrow> is_dir fs' p) \<and>
     (\<forall>p. is_file fs p \<longrightarrow> is_file fs' p) \<and>
     (\<forall>Q. (\<forall>k. P k \<longrightarrow> \<not> Q k) \<longrightarrow> filter (\<lambda>x. Q (fst x)) fs' = filter (\<lambda>x. Q (fst x)) fs)"




text \<open>The length of the longest path in the store: fuel beyond it is never used up.\<close>

definition depth :: "filesystem \<Rightarrow> nat" where
  "depth fs = foldr (\<lambda>x n. max (length (fst x)) n) fs 0"


text \<open>
  Readings of a trace: the directories that \<^verbatim>\<open>mkdtemp\<close> made, the directories whose
  removal was attempted, and the commands that started a container. Events are sorted
  into classes; staging is what fetches or unpacks NCCL and cuDNN (the installer's dump,
  \<^verbatim>\<open>dpkg\<close>, \<^verbatim>\<open>tar\<close>, \<^verbatim>\<open>curl\<close>, unpacking and moving).
\<close>

definition created :: "trace \<Rightarrow> string list" where
  "created tr = concat (map (\<lambda>ev. case ev of Mkdtemp d \<Rightarrow> [d] | _ \<Rightarrow> []) tr)"

definition removed :: "trace \<Rightarrow> string list" where
  "removed tr = concat (map (\<lambda>ev. case ev of Rmtree d \<Rightarrow> [d] | _ \<Rightarrow> []) tr)"

datatype event_class = CLog | CRun | CBuild | CStage | CProcess | CFile | CTemp | CRemove

definition classify_command :: "string list \<Rightarrow> event_class" where
  "classify_command cmd =
     (if take 2 cmd = [''nvidia-docker'', ''run''] \<or> take 2 cmd = [''docker'', ''run''] then CRun
      else if take 2 cmd = [''docker'', ''build''] then CBuild
      else if take 1 cmd = [''dpkg''] \<or> take 1 cmd = [''tar''] \<or> take 1 cmd = [''curl'']
      then CStage
      else CProcess)"

fun classify :: "event \<Rightarrow> event_class" where
  "classify (Log m) = CLog"
| "classify (Print m) = CLog"
| "classify (CheckCall cmd cwd) = classify_command cmd"
| "classify (CheckOutput cmd) = CStage"
| "classify (Mkdtemp d) = CTemp"
| "classify (Copytree s d) = CFile"
| "classify (Copy2 s d) = CFile"
| "classify (WriteText p c) = CFile"
| "classify (JsonDump p j) = CFile"
| "classify (Mkdir p) = CFile"
| "classify (Move s d) = CStage"
| "classify (UnpackArchive f d) = CStage"
| "classify (Rmtree d) = CRemove"
| "classify (InstallTree s d) = CFile"

definition container_runs :: "trace \<Rightarrow> string list list" where
  "container_runs tr =
     concat (map (\<lambda>ev. case ev of
                          CheckCall cmd cwd \<Rightarrow> if classify_command cmd = CRun then [cmd] else []
                        | _ \<Rightarrow> []) tr)"

text \<open>
  \<open>extends_with Q m\<close>: whatever the history, \<open>m\<close> only appends to it, and what it appends
  satisfies \<open>Q\<close>.
\<close>

definition extends_with :: "(trace \<Rightarrow> bool) \<Rightarrow> (trace, 'a) io \<Rightarrow> bool" where
  "extends_with Q m \<longleftrightarrow> (\<forall>tr. \<exists>new. snd (m tr) = tr @ new \<and> Q new)"

definition segment_closed :: "(trace \<Rightarrow> bool) \<Rightarrow> bool" where
  "segment_closed Q \<longleftrightarrow> Q [] \<and> (\<forall>a b. Q a \<longrightarrow> Q b \<longrightarrow> Q (a @ b))"

definition emits :: "event_class set \<Rightarrow> (trace, 'a) io \<Rightarrow> bool" where
  "emits C m \<longleftrightarrow> extends_with (\<lambda>new. classify ` set new \<subseteq> C) m"

definition tidy :: "(trace, 'a) io \<Rightarrow> bool" where
  "tidy m \<longleftrightarrow> extends_with (\<lambda>new. set (created new) \<subseteq> set (removed new)) m"

section \<open>Example inputs\<close>

text \<open>A CUDA 12.4 host on which every subprocess succeeds.\<close>

definition env_12_4 :: cupy_env where
  "env_12_4 = \<lparr>is_hip = False, nvrtc_getVersion = (12, 4), sys_executable = ''python3'',
               subprocess_fails = (\<lambda>tr ev. None)\<rparr>"


text \<open>An installer output directory with nothing in it, and one whose library directory is empty.\<close>

definition vendor_empty :: filesystem where
  "vendor_empty = [([], Directory), ([''src''], Directory), ([''cuda''], Directory)]"

definition vendor_empty_lib :: filesystem where
  "vendor_empty_lib =
     [([], Directory), ([''src''], Directory), ([''src'', ''11.0''], Directory),
      ([''src'', ''11.0'', ''cudnn''], Directory), ([''cuda''], Directory)]"





text \<open>
  cuDNN payloads that hold a regular file at the top level, listed after the library
  directory and before it.
\<close>

definition vendor_cudnn :: filesystem where
  "vendor_cudnn =
     [([], Directory), ([''src''], Directory), ([''src'', ''11.0''], Directory),
      ([''src'', ''11.0'', ''cudnn''], Directory),
      ([''src'', ''11.0'', ''cudnn'', ''8.0''], Directory),
      ([''src'', ''11.0'', ''cudnn'', ''8.0'', ''lib64''], Directory),
      ([''src'', ''11.0'', ''cudnn'', ''8.0'', ''lib64'', ''libcudnn.so''], File ''ELF''),
      ([''src'', ''11.0'', ''cudnn'', ''8.0'', ''LICENSE''], File ''license text''),
      ([''cuda''], Directory)]"

definition vendor_cudnn_license_first :: filesystem where
  "vendor_cudnn_license_first =
     [([], Directory), ([''src''], Directory), ([''src'', ''11.0''], Directory),
      ([''src'', ''11.0'', ''cudnn''], Directory),
      ([''src'', ''11.0'', ''cudnn'', ''8.0''], Directory),
      ([''src'', ''11.0'', ''cudnn'', ''8.0'', ''LICENSE''], File ''license text''),
      ([''src'', ''11.0'', ''cudnn'', ''8.0'', ''lib64''], Directory),
      ([''src'', ''11.0'', ''cudnn'', ''8.0'', ''lib64'', ''libcudnn.so''], File ''ELF''),
      ([''cuda''], Directory)]"


section \<open>Properties of setup\_cuda\_runtime\_headers.py\<close>

lemma str_int_12: "str_int 12 = ''12''"
  by (simp add: str_int_def digits.simps)

text \<open>
  C10: the script returns without any effect when the runtime is HIP, when the NVRTC major
  version is 11, and when it is 12 with a minor version below 2. For 12.2 and later it
  prints and runs exactly one command, the \<^verbatim>\<open>pip install --user\<close> of
  \<^verbatim>\<open>nvidia-cuda-runtime-cu12\<close> pinned to \<^verbatim>\<open>12.minor.*\<close>, and its outcome is that of the
  command. For every other major version it raises \<^verbatim>\<open>AssertionError\<close> with no effect.
\<close>

theorem runtime_headers_main_cases:
  "runtime_headers_main env tr =
     (case nvrtc_getVersion env of (major, minor) \<Rightarrow>
        if is_hip env \<or> major = 11 \<or> (major = 12 \<and> minor < 2) then (Inr (), tr)
        else if major = 12 then
          (let cmd = [sys_executable env, ''-m'', ''pip'', ''install'', ''--user'',
                      ''nvidia-cuda-runtime-cu12==12.'' @ str_int minor @ ''.*''];
               tr1 = tr @ [Print (''Running: '' @ shlex_join cmd)]
           in (case subprocess_fails env tr1 (CheckCall cmd None) of
                 None \<Rightarrow> Inr () | Some e \<Rightarrow> Inl e,
               tr1 @ [CheckCall cmd None]))
        else (Inl AssertionError, tr))"
  by (simp add: runtime_headers_main_def install_headers_def pip_cmdline_def io_return_def
      raise_def io_then_def io_bind_def emit_def effect_def str_int_12 Let_def
      split: prod.splits option.splits)

theorem runtime_headers_main_cases_witness:
  "runtime_headers_main env_12_4 [] =
     (Inr (),
      [Print (''Running: python3 -m pip install --user '' @ [CHR 0x27]
              @ ''nvidia-cuda-runtime-cu12==12.4.*'' @ [CHR 0x27]),
       CheckCall [''python3'', ''-m'', ''pip'', ''install'', ''--user'',
                  ''nvidia-cuda-runtime-cu12==12.4.*''] None])"
  using runtime_headers_main_cases [of env_12_4 "[]"]
  by (simp add: env_12_4_def str_int_def digits.simps shlex_join_def shlex_quote_def shlex_safe_def)

section \<open>Properties of the file operations and of merge\_directory\<close>

lemma filter_update_other:
  "\<not> Q k \<Longrightarrow> filter (\<lambda>x. Q (fst x)) (AList.update k v al) = filter (\<lambda>x. Q (fst x)) al"
  by (induction al) auto

lemma update_absent: "map_of al k = None \<Longrightarrow> AList.update k v al = al @ [(k, v)]"
  by (induction al) (auto split: if_splits)

lemma grows_refl: "grows P fs fs"
  by (simp add: grows_def)

lemma grows_trans: "grows P a b \<Longrightarrow> grows P b c \<Longrightarrow> grows P a c"
  by (simp add: grows_def)

lemma grows_mono: "grows P a b \<Longrightarrow> (\<And>p. P p \<Longrightarrow> P' p) \<Longrightarrow> grows P' a b"
  unfolding grows_def by blast

lemma grows_update_file:
  "P k \<Longrightarrow> \<not> is_dir fs k \<Longrightarrow> grows P fs (AList.update k (File c) fs)"
  unfolding grows_def
  by (auto simp: update_conv' is_dir_def is_file_def filter_update_other split: option.splits entry.splits)

lemma grows_mkdir:
  "P k \<Longrightarrow> map_of fs k = None \<Longrightarrow> grows P fs (fs @ [(k, Directory)])"
  unfolding grows_def
  by (auto simp: is_dir_def is_file_def map_add_def split: option.splits entry.splits)

lemma mkdir_grows: "mkdir p fs = (r, fs') \<Longrightarrow> grows (\<lambda>q. q = p) fs fs'"
  by (auto simp: mkdir_def exists_def grows_refl grows_mkdir split: if_splits option.splits entry.splits)

lemma copy2_grows:
  "copy2 a b fs = (r, fs') \<Longrightarrow> grows (\<lambda>q. q = b \<or> q = b @ [last a]) fs fs'"
  by (auto simp: copy2_def copy2_target_def Let_def grows_refl is_dir_def intro!: grows_update_file split: if_splits option.splits entry.splits)

lemma copy_files_grows:
  "copy_files sp dp files fs = (r, fs')
   \<Longrightarrow> grows (\<lambda>q. \<exists>f\<in>set files. q = dp @ [f] \<or> q = dp @ [f, f]) fs fs'"
proof (induction files arbitrary: fs)
  case Nil
  then show ?case by (simp add: io_return_def grows_refl)
next
  case (Cons f files)
  obtain r1 fs1 where c: "copy2 (sp @ [f]) (dp @ [f]) fs = (r1, fs1)"
    by (cases "copy2 (sp @ [f]) (dp @ [f]) fs")
  have g1: "grows (\<lambda>q. \<exists>f\<in>set (f # files). q = dp @ [f] \<or> q = dp @ [f, f]) fs fs1"
    by (rule grows_mono [OF copy2_grows [OF c]]) auto
  show ?case
  proof (cases r1)
    case (Inl e)
    with Cons.prems c have "fs' = fs1" by (simp add: io_then_def io_bind_def)
    with g1 show ?thesis by simp
  next
    case (Inr u)
    with Cons.prems c have "copy_files sp dp files fs1 = (r, fs')"
      by (simp add: io_then_def io_bind_def)
    from Cons.IH [OF this]
    have "grows (\<lambda>q. \<exists>f\<in>set (f # files). q = dp @ [f] \<or> q = dp @ [f, f]) fs1 fs'"
      by (rule grows_mono) auto
    with g1 show ?thesis by (rule grows_trans)
  qed
qed

lemma merge_body_grows:
  assumes "merge_body S D (S @ rel) files fs = (r, fs')"
  shows "grows (prefix (D @ rel)) fs fs'"
proof -
  let ?dp = "D @ rel"
  obtain r1 fs1 where m: "(if \<not> exists fs ?dp then mkdir ?dp fs else (Inr (), fs)) = (r1, fs1)"
    by (cases "if \<not> exists fs ?dp then mkdir ?dp fs else (Inr (), fs)")
  have g1: "grows (prefix ?dp) fs fs1"
  proof (cases "exists fs ?dp")
    case True with m show ?thesis by (simp add: grows_refl)
  next
    case False
    with m have "mkdir ?dp fs = (r1, fs1)" by simp
    from mkdir_grows [OF this] show ?thesis by (rule grows_mono) simp
  qed
  show ?thesis
  proof (cases r1)
    case (Inl e)
    with assms m have "fs' = fs1"
      by (simp add: merge_body_def relative_to_def io_then_def io_bind_def Let_def)
    with g1 show ?thesis by simp
  next
    case (Inr u)
    with assms m have "copy_files (S @ rel) ?dp files fs1 = (r, fs')"
      by (simp add: merge_body_def relative_to_def io_then_def io_bind_def Let_def)
    from copy_files_grows [OF this] have "grows (prefix ?dp) fs1 fs'"
      by (rule grows_mono) (auto simp: prefix_def)
    with g1 show ?thesis by (rule grows_trans)
  qed
qed

lemma walk_grows:
  "(\<forall>rel r fs'. srcpath = S @ rel \<longrightarrow> walk_merge k S D srcpath fs = Some (r, fs')
      \<longrightarrow> grows (prefix (D @ rel)) fs fs')"
  "(\<forall>rel r fs'. srcpath = S @ rel \<longrightarrow> walk_dirs k S D srcpath ds fs = Some (r, fs')
      \<longrightarrow> grows (\<lambda>q. \<exists>d\<in>set ds. prefix (D @ rel @ [d]) q) fs fs')"
proof (induction k S D srcpath fs and k S D srcpath ds fs rule: walk_merge_walk_dirs.induct)
  case (1 S D srcpath fs)
  then show ?case by simp
next
  case (2 k S D srcpath fs)
  show ?case
  proof (intro allI impI)
    fix rel r fs'
    assume top: "srcpath = S @ rel" and w: "walk_merge (Suc k) S D srcpath fs = Some (r, fs')"
    show "grows (prefix (D @ rel)) fs fs'"
    proof (cases "scandir fs srcpath")
      case None
      with w show ?thesis by (simp add: grows_refl)
    next
      case (Some a)
      obtain dirs nondirs where a: "a = (dirs, nondirs)" by (cases a)
      obtain r1 fs1 where b: "merge_body S D srcpath nondirs fs = (r1, fs1)"
        by (cases "merge_body S D srcpath nondirs fs")
      have g1: "grows (prefix (D @ rel)) fs fs1"
        using b top merge_body_grows by blast
      show ?thesis
      proof (cases r1)
        case (Inl e)
        with w Some a b have "fs' = fs1" by simp
        with g1 show ?thesis by simp
      next
        case (Inr u)
        with w Some a b have wd: "walk_dirs k S D srcpath dirs fs1 = Some (r, fs')" by simp
        have "grows (\<lambda>q. \<exists>d\<in>set dirs. prefix (D @ rel @ [d]) q) fs1 fs'"
          using "2.IH" [OF Some a [symmetric] b [symmetric] Inr] top wd by blast
        then have "grows (prefix (D @ rel)) fs1 fs'"
          by (rule grows_mono) (auto simp: prefix_def)
        with g1 show ?thesis by (rule grows_trans)
      qed
    qed
  qed
next
  case (3 k S D srcpath fs)
  then show ?case by (simp add: grows_refl)
next
  case (4 k S D srcpath d ds fs)
  show ?case
  proof (intro allI impI)
    fix rel r fs'
    assume top: "srcpath = S @ rel"
      and w: "walk_dirs k S D srcpath (d # ds) fs = Some (r, fs')"
    let ?P = "\<lambda>q. \<exists>d\<in>set (d # ds). prefix (D @ rel @ [d]) q"
    from w obtain r1 fs1 where w1: "walk_merge k S D (srcpath @ [d]) fs = Some (r1, fs1)"
      by (cases "walk_merge k S D (srcpath @ [d]) fs") auto
    have "grows (prefix (D @ (rel @ [d]))) fs fs1"
      using "4.IH"(1) top w1 by simp
    then have g1: "grows ?P fs fs1" by (rule grows_mono) simp
    show "grows ?P fs fs'"
    proof (cases r1)
      case (Inl e)
      with w w1 have "fs' = fs1" by simp
      with g1 show ?thesis by simp
    next
      case (Inr u)
      with w w1 have wd: "walk_dirs k S D srcpath ds fs1 = Some (r, fs')" by simp
      have "grows (\<lambda>q. \<exists>d\<in>set ds. prefix (D @ rel @ [d]) q) fs1 fs'"
        using "4.IH"(2) [OF w1 refl Inr] top wd
        by blast
      then have "grows ?P fs1 fs'" by (rule grows_mono) auto
      with g1 show ?thesis by (rule grows_trans)
    qed
  qed
qed

















lemma relative_to_append [simp]: "relative_to (S @ rel) S = rel"
  by (simp add: relative_to_def)


















lemma merge_directory_keeps:
  assumes "merge_directory k S D fs = Some (r, fs')"
  shows "is_dir fs p \<Longrightarrow> is_dir fs' p" and "is_file fs p \<Longrightarrow> is_file fs' p"
    and "\<not> prefix D p \<Longrightarrow> map_of fs' p = map_of fs p"
proof -
  from assms have "walk_merge k S D (S @ []) fs = Some (r, fs')" by (simp add: merge_directory_def)
  then have g: "grows (prefix (D @ [])) fs fs'" using walk_grows(1) by blast
  from g show "is_dir fs p \<Longrightarrow> is_dir fs' p" by (simp add: grows_def)
  from g show "is_file fs p \<Longrightarrow> is_file fs' p" by (simp add: grows_def)
  from g show "\<not> prefix D p \<Longrightarrow> map_of fs' p = map_of fs p" by (simp add: grows_def)
qed


lemma install_children_file:
  "c \<in> set cs \<Longrightarrow> is_file fs c \<Longrightarrow> install_children k D m cs fs \<noteq> Some (Inr (), fs')"
proof (induction cs arbitrary: fs)
  case Nil
  then show ?case by simp
next
  case (Cons x cs)
  show ?case
  proof (cases "is_dir fs x")
    case False
    then show ?thesis by simp
  next
    case True
    with Cons.prems(2) have "x \<noteq> c" by (auto simp: is_dir_def is_file_def)
    with Cons.prems(1) have c: "c \<in> set cs" by simp
    define n where "n = (case m (last x) of Some n \<Rightarrow> n | None \<Rightarrow> last x)"
    show ?thesis
    proof (cases "merge_directory k x (D @ [n]) fs")
      case None
      with True show ?thesis by (simp add: n_def)
    next
      case (Some a)
      obtain r1 fs1 where a: "a = (r1, fs1)" by (cases a)
      show ?thesis
      proof (cases r1)
        case (Inl e)
        with Some a True show ?thesis by (simp add: n_def)
      next
        case (Inr u)
        from merge_directory_keeps(2) [OF Some [unfolded a] Cons.prems(2)]
        have "is_file fs1 c" .
        from Cons.IH [OF c this] Some a Inr True show ?thesis by (simp add: n_def)
      qed
    qed
  qed
qed

lemmas fs_eval =
  merge_directory_def scandir_def listdir_def is_dir_def is_file_def exists_def merge_body_def
  relative_to_def io_then_def io_bind_def io_return_def mkdir_def copy2_def copy2_target_def
  Let_def iterdir_def child_def install_library_def missing_errno_def depth_def




section \<open>Properties of \_install\_library: the checks before the payload\<close>



text \<open>
  C9: a version-scoped level with no child at all fails the assertion of \<^verbatim>\<open>_child\<close>,
  at the first level and at the second alike, and leaves the file system as it was. A
  normal return is possible only when the first level has exactly one child and either
  the library's directory is absent below it (the skip) or that directory has exactly
  one child: an empty level is never taken for the skip.
\<close>

theorem install_library_empty_level:
  "(iterdir fs src_dir = Inr []
      \<longrightarrow> install_library k name src_dir dst_dir install_map fs = Some (Inl AssertionError, fs))
   \<and> (iterdir fs src_dir = Inr [v] \<and> exists fs (v @ [name]) \<and> iterdir fs (v @ [name]) = Inr []
      \<longrightarrow> install_library k name src_dir dst_dir install_map fs = Some (Inl AssertionError, fs))
   \<and> (install_library k name src_dir dst_dir install_map fs = Some (Inr (), fs')
      \<longrightarrow> (\<exists>c. iterdir fs src_dir = Inr [c]
              \<and> (\<not> exists fs (c @ [name]) \<or> (\<exists>p. iterdir fs (c @ [name]) = Inr [p]))))"
proof (intro conjI impI)
  assume "install_library k name src_dir dst_dir install_map fs = Some (Inr (), fs')"
  then show "\<exists>c. iterdir fs src_dir = Inr [c]
              \<and> (\<not> exists fs (c @ [name]) \<or> (\<exists>p. iterdir fs (c @ [name]) = Inr [p]))"
    by (auto simp: install_library_def child_def length_Suc_conv
        split: sum.splits if_splits)
qed (simp_all add: install_library_def child_def)

theorem install_library_empty_level_witness:
  "iterdir vendor_empty [''src''] = Inr []
   \<and> install_library 3 ''cudnn'' [''src''] [''cuda''] Map.empty vendor_empty
       = Some (Inl AssertionError, vendor_empty)
   \<and> iterdir vendor_empty_lib [''src''] = Inr [[''src'', ''11.0'']]
   \<and> exists vendor_empty_lib ([''src'', ''11.0''] @ [''cudnn''])
   \<and> iterdir vendor_empty_lib ([''src'', ''11.0''] @ [''cudnn'']) = Inr []
   \<and> install_library 3 ''cudnn'' [''src''] [''cuda''] Map.empty vendor_empty_lib
       = Some (Inl AssertionError, vendor_empty_lib)"
proof -
  have a: "iterdir vendor_empty [''src''] = Inr []"
    by (simp add: iterdir_def listdir_def vendor_empty_def)
  have b: "iterdir vendor_empty_lib [''src''] = Inr [[''src'', ''11.0'']]"
    by (simp add: iterdir_def listdir_def vendor_empty_lib_def)
  have c: "exists vendor_empty_lib ([''src'', ''11.0''] @ [''cudnn''])"
    by (simp add: exists_def vendor_empty_lib_def)
  have d: "iterdir vendor_empty_lib ([''src'', ''11.0''] @ [''cudnn'']) = Inr []"
    by (simp add: iterdir_def listdir_def vendor_empty_lib_def)
  from a b c d
    install_library_empty_level [where fs = vendor_empty and src_dir = "[''src'']" and k = 3
      and name = "''cudnn''" and dst_dir = "[''cuda'']" and install_map = Map.empty]
    install_library_empty_level [where fs = vendor_empty_lib and src_dir = "[''src'']"
      and v = "[''src'', ''11.0'']" and k = 3 and name = "''cudnn''" and dst_dir = "[''cuda'']"
      and install_map = Map.empty]
  show ?thesis by simp
qed

section \<open>Properties of \_install\_library: the payload\<close>

text \<open>
  C2 does not hold of the code. When the vendor tree has one candidate at each level and
  the first entry of the payload is not a directory, \<^verbatim>\<open>_install_library\<close> raises
  \<^verbatim>\<open>NameError\<close> for the unbound name \<^verbatim>\<open>dst_name\<close> and copies nothing; and whenever the
  payload holds a regular file at its top level, wherever it is listed,
  \<^verbatim>\<open>_install_library\<close> does not return normally.
\<close>

theorem install_library_file_entry:
  "iterdir fs src_dir = Inr [v] \<Longrightarrow> exists fs (v @ [name])
   \<Longrightarrow> iterdir fs (v @ [name]) = Inr [payload] \<Longrightarrow> iterdir fs payload = Inr children
   \<Longrightarrow> (\<forall>c cs. children = c # cs \<and> \<not> is_dir fs c
          \<longrightarrow> install_library k name src_dir dst_dir install_map fs
              = Some (Inl (NameError ''dst_name''), fs))
     \<and> (\<forall>c fs'. c \<in> set children \<and> is_file fs c
          \<longrightarrow> install_library k name src_dir dst_dir install_map fs \<noteq> Some (Inr (), fs'))"
  by (auto simp: install_library_def child_def dest: install_children_file)

theorem install_library_file_entry_witness:
  "iterdir vendor_cudnn_license_first [''src''] = Inr [[''src'', ''11.0'']]
   \<and> exists vendor_cudnn_license_first ([''src'', ''11.0''] @ [''cudnn''])
   \<and> iterdir vendor_cudnn_license_first ([''src'', ''11.0''] @ [''cudnn''])
       = Inr [[''src'', ''11.0'', ''cudnn'', ''8.0'']]
   \<and> iterdir vendor_cudnn_license_first [''src'', ''11.0'', ''cudnn'', ''8.0'']
       = Inr [[''src'', ''11.0'', ''cudnn'', ''8.0'', ''LICENSE''],
              [''src'', ''11.0'', ''cudnn'', ''8.0'', ''lib64'']]
   \<and> \<not> is_dir vendor_cudnn_license_first [''src'', ''11.0'', ''cudnn'', ''8.0'', ''LICENSE'']
   \<and> is_file vendor_cudnn_license_first [''src'', ''11.0'', ''cudnn'', ''8.0'', ''LICENSE'']
   \<and> install_library 8 ''cudnn'' [''src''] [''cuda'']
         [''lib64'' \<mapsto> ''lib64'', ''include'' \<mapsto> ''include''] vendor_cudnn_license_first
       = Some (Inl (NameError ''dst_name''), vendor_cudnn_license_first)
   \<and> install_library 8 ''cudnn'' [''src''] [''cuda'']
         [''lib64'' \<mapsto> ''lib64'', ''include'' \<mapsto> ''include''] vendor_cudnn_license_first
       \<noteq> Some (Inr (), vendor_cudnn_license_first)"
proof -
  have a: "iterdir vendor_cudnn_license_first [''src''] = Inr [[''src'', ''11.0'']]"
    by (simp add: iterdir_def listdir_def vendor_cudnn_license_first_def)
  have b: "exists vendor_cudnn_license_first ([''src'', ''11.0''] @ [''cudnn''])"
    by (simp add: exists_def vendor_cudnn_license_first_def)
  have c: "iterdir vendor_cudnn_license_first ([''src'', ''11.0''] @ [''cudnn''])
       = Inr [[''src'', ''11.0'', ''cudnn'', ''8.0'']]"
    by (simp add: iterdir_def listdir_def vendor_cudnn_license_first_def)
  have d: "iterdir vendor_cudnn_license_first [''src'', ''11.0'', ''cudnn'', ''8.0'']
       = Inr [[''src'', ''11.0'', ''cudnn'', ''8.0'', ''LICENSE''],
              [''src'', ''11.0'', ''cudnn'', ''8.0'', ''lib64'']]"
    by (simp add: iterdir_def listdir_def vendor_cudnn_license_first_def)
  have e: "\<not> is_dir vendor_cudnn_license_first [''src'', ''11.0'', ''cudnn'', ''8.0'', ''LICENSE'']"
    "is_file vendor_cudnn_license_first [''src'', ''11.0'', ''cudnn'', ''8.0'', ''LICENSE'']"
    by (simp_all add: is_dir_def is_file_def vendor_cudnn_license_first_def)
  from a b c d e install_library_file_entry [OF a b c d, of 8 "[''cuda'']"
      "[''lib64'' \<mapsto> ''lib64'', ''include'' \<mapsto> ''include'']"]
  show ?thesis by simp
qed

text \<open>
  The same defect with the file listed last: the library directory has been merged into
  the destination by the time the exception is raised.
\<close>

lemma install_library_partial_NameError:
  "install_library 8 ''cudnn'' [''src''] [''cuda'']
     [''lib64'' \<mapsto> ''lib64'', ''include'' \<mapsto> ''include''] vendor_cudnn
   = Some (Inl (NameError ''dst_name''),
           vendor_cudnn @ [([''cuda'', ''lib64''], Directory),
                           ([''cuda'', ''lib64'', ''libcudnn.so''], File ''ELF'')])"
  by (simp add: vendor_cudnn_def fs_eval eval_nat_numeral)




end
